theory Spec2Isabelle
  imports Main
begin

section \<open>JavaScript values\<close>

text \<open>
  A number is given by the text the runtime prints for it: \<^verbatim>\<open>20\<close>, \<^verbatim>\<open>-1.5\<close>, \<^verbatim>\<open>1e+21\<close>.
  Zero and minus zero print as \<^verbatim>\<open>0\<close>. Nothing below computes with a number other than to
  test its truth value or to print it.
\<close>

type_synonym number = string

text \<open>
  A JSON value, as \<^verbatim>\<open>JSON.parse\<close> and the body parser of the web framework produce it.
  An object is the list of its own properties, each key once; its members are JSON
  values, so none of them is callable.
\<close>

datatype json =
    JNull
  | JBool bool
  | JNum number
  | JStr string
  | JArr "json list"
  | JObj "(string \<times> json) list"

text \<open>A value read from an object: \<open>None\<close> is JavaScript's \<^verbatim>\<open>undefined\<close>.\<close>

type_synonym jsval = "json option"

fun truthy_json :: "json \<Rightarrow> bool" where
  "truthy_json JNull = False"
| "truthy_json (JBool b) = b"
| "truthy_json (JNum n) = (n \<noteq> ''0'' \<and> n \<noteq> ''NaN'')"
| "truthy_json (JStr s) = (s \<noteq> [])"
| "truthy_json (JArr xs) = True"
| "truthy_json (JObj kvs) = True"

fun truthy :: "jsval \<Rightarrow> bool" where
  "truthy None = False"
| "truthy (Some j) = truthy_json j"

text \<open>
  A thrown value: its message (empty when it has none) and, when it carries an HTTP
  response, that response's status and body.
\<close>

datatype exn = Exn (message: string) (response: "(nat \<times> string) option")

text \<open>The error of a conversion to text that finds no primitive value.\<close>

definition TypeError :: exn where
  "TypeError = Exn ''Cannot convert object to primitive value'' None"

text \<open>A step that may throw, followed by what is done with its value.\<close>

definition andThen :: "exn + 'a \<Rightarrow> ('a \<Rightarrow> exn + 'b) \<Rightarrow> exn + 'b" where
  "andThen r f = (case r of Inl err \<Rightarrow> Inl err | Inr v \<Rightarrow> f v)"

text \<open>
  String conversion of a value, as a template literal \<^verbatim>\<open>`${v}`\<close> and a property access
  \<^verbatim>\<open>table[v]\<close> perform it. An array joins the texts of its elements with commas, from left
  to right, \<^verbatim>\<open>null\<close> elements as the empty text. An object is converted by its
  \<^verbatim>\<open>toString\<close> member and then its \<^verbatim>\<open>valueOf\<close> member: without an own \<^verbatim>\<open>toString\<close> the
  inherited one answers \<^verbatim>\<open>[object Object]\<close>; with an own \<^verbatim>\<open>toString\<close>, which is not
  callable, neither an own \<^verbatim>\<open>valueOf\<close> (not callable) nor the inherited one (it returns
  the object) gives a primitive value, and the conversion throws a \<^verbatim>\<open>TypeError\<close>.
\<close>

fun js_string_json :: "json \<Rightarrow> exn + string"
  and js_join :: "json list \<Rightarrow> exn + string" where
  "js_string_json JNull = Inr ''null''"
| "js_string_json (JBool b) = Inr (if b then ''true'' else ''false'')"
| "js_string_json (JNum n) = Inr n"
| "js_string_json (JStr s) = Inr s"
| "js_string_json (JArr xs) = js_join xs"
| "js_string_json (JObj kvs) =
     (if map_of kvs ''toString'' = None then Inr ''[object Object]'' else Inl TypeError)"
| "js_join [] = Inr []"
| "js_join [x] = (if x = JNull then Inr [] else js_string_json x)"
| "js_join (x # y # ys) =
     (case (if x = JNull then Inr [] else js_string_json x) of
        Inl err \<Rightarrow> Inl err
      | Inr s \<Rightarrow>
          (case js_join (y # ys) of
             Inl err \<Rightarrow> Inl err
           | Inr r \<Rightarrow> Inr (s @ '','' @ r)))"

fun js_string :: "jsval \<Rightarrow> exn + string" where
  "js_string None = Inr ''undefined''"
| "js_string (Some j) = js_string_json j"

section \<open>Prompt configuration\<close>

definition stylePrompts :: "(string \<times> string) list" where
  "stylePrompts =
    [(''Bold & Graphic'',
      ''eye-catching thumbnail, bold typography, vibrant colors, expressive facial reaction, dramatic lighting, high contrast, click-worthy composition, professional style''),
     (''Tech/Futuristic'',
      ''futuristic thumbnail, sleek modern design, digital UI elements, glowing accents, holographic effects, cyber-tech aesthetic, sharp lighting, high-tech atmosphere''),
     (''Minimalist'',
      ''minimalist thumbnail, clean layout, simple shapes, limited color palette, plenty of negative space, modern flat design, clear focal point''),
     (''Photorealistic'',
      ''photorealistic thumbnail, ultra-realistic lighting, natural skin tones, candid moment, DSLR-style photography, lifestyle realism, shallow depth of field''),
     (''Illustrated'',
      ''illustrated thumbnail, custom digital illustration, stylized characters, bold outlines, vibrant colors, creative cartoon or vector art style'')]"

definition colorSchemeDescriptions :: "(string \<times> string) list" where
  "colorSchemeDescriptions =
    [(''vibrant'',
      ''vibrant and energetic colors, high saturation, bold contrasts, eye-catching palette''),
     (''sunset'',
      ''warm sunset tones, orange pink and purple hues, soft gradients, cinematic glow''),
     (''forest'',
      ''natural green tones, earthy colors, calm and organic palette, fresh atmosphere''),
     (''neon'',
      ''neon glow effects, electric blues and pinks, cyberpunk lighting, high contrast glow''),
     (''purple'',
      ''purple-dominant color palette, magenta and violet tones, modern and stylish mood''),
     (''monochrome'',
      ''black and white color scheme, high contrast, dramatic lighting, timeless aesthetic''),
     (''ocean'',
      ''cool blue and teal tones, aquatic color palette, fresh and clean atmosphere''),
     (''pastel'',
      ''soft pastel colors, low saturation, gentle tones, calm and friendly aesthetic'')]"

text \<open>
  The members every object literal inherits from \<^verbatim>\<open>Object.prototype\<close>, each with the text a
  template literal prints for it. A table lookup \<^verbatim>\<open>table[key]\<close> finds them when the table
  has no own property of that name.
\<close>

definition Object_prototype :: "(string \<times> string) list" where
  "Object_prototype =
    [(''constructor'', ''function Object() { [native code] }''),
     (''__defineGetter__'', ''function __defineGetter__() { [native code] }''),
     (''__defineSetter__'', ''function __defineSetter__() { [native code] }''),
     (''hasOwnProperty'', ''function hasOwnProperty() { [native code] }''),
     (''__lookupGetter__'', ''function __lookupGetter__() { [native code] }''),
     (''__lookupSetter__'', ''function __lookupSetter__() { [native code] }''),
     (''isPrototypeOf'', ''function isPrototypeOf() { [native code] }''),
     (''propertyIsEnumerable'', ''function propertyIsEnumerable() { [native code] }''),
     (''toString'', ''function toString() { [native code] }''),
     (''valueOf'', ''function valueOf() { [native code] }''),
     (''__proto__'', ''[object Object]''),
     (''toLocaleString'', ''function toLocaleString() { [native code] }'')]"

text \<open>
  \<^verbatim>\<open>`${table[key]}`\<close>: the key is converted to a property name, which may throw; an own
  property wins, then an inherited one; a missing property is \<^verbatim>\<open>undefined\<close> and prints
  as that word.
\<close>

definition lookup_text :: "(string \<times> string) list \<Rightarrow> jsval \<Rightarrow> exn + string" where
  "lookup_text table key =
     andThen (js_string key) (\<lambda>k.
       Inr (case map_of table k of
              Some d \<Rightarrow> d
            | None \<Rightarrow>
                (case map_of Object_prototype k of
                   Some t \<Rightarrow> t
                 | None \<Rightarrow> ''undefined'')))"

section \<open>Prompt composition\<close>

text \<open>
  Lines 116 to 123 of the controller: the prompt starts from the style and the title and
  grows by \<^verbatim>\<open>+=\<close>. Each conversion to text happens where its line stands, and the first
  one that throws ends the composition.
\<close>

definition composePrompt :: "jsval \<Rightarrow> jsval \<Rightarrow> jsval \<Rightarrow> jsval \<Rightarrow> jsval \<Rightarrow> exn + string" where
  "composePrompt title user_prompt style aspect_ratio color_scheme =
     andThen (lookup_text stylePrompts style) (\<lambda>styleText.
     andThen (js_string title) (\<lambda>titleText.
     andThen (if truthy color_scheme
              then andThen (lookup_text colorSchemeDescriptions color_scheme) (\<lambda>colorText.
                     Inr (''Create a '' @ styleText @ '' for: \"'' @ titleText @ ''\" ''
                            @ ''Use a '' @ colorText @ '' color scheme. ''))
              else Inr (''Create a '' @ styleText @ '' for: \"'' @ titleText @ ''\" ''))
       (\<lambda>prompt.
     andThen (if truthy user_prompt
              then andThen (js_string user_prompt) (\<lambda>userText.
                     Inr (prompt @ ''Additional details: '' @ userText @ '' ''))
              else Inr prompt)
       (\<lambda>prompt.
     andThen (js_string aspect_ratio) (\<lambda>ratioText.
       Inr (prompt @ ''The thumbnail should be '' @ ratioText
              @ '', visually stunning, and designed to maximize click-through rate. Make it bold, professional, and impossible to ignore.''))))))"

text \<open>
  The near-duplicate controller composes the same way up to the closing sentence
  (lines 62 to 73 of its file).
\<close>

definition composePrompt_sdk :: "jsval \<Rightarrow> jsval \<Rightarrow> jsval \<Rightarrow> jsval \<Rightarrow> jsval \<Rightarrow> exn + string" where
  "composePrompt_sdk title user_prompt style aspect_ratio color_scheme =
     andThen (lookup_text stylePrompts style) (\<lambda>styleText.
     andThen (js_string title) (\<lambda>titleText.
     andThen (if truthy color_scheme
              then andThen (lookup_text colorSchemeDescriptions color_scheme) (\<lambda>colorText.
                     Inr (''Create a '' @ styleText @ '' for: \"'' @ titleText @ ''\" ''
                            @ ''Use a '' @ colorText @ '' color scheme. ''))
              else Inr (''Create a '' @ styleText @ '' for: \"'' @ titleText @ ''\" ''))
       (\<lambda>prompt.
     andThen (if truthy user_prompt
              then andThen (js_string user_prompt) (\<lambda>userText.
                     Inr (prompt @ ''Additional details: '' @ userText @ '' ''))
              else Inr prompt)
       (\<lambda>prompt.
     andThen (js_string aspect_ratio) (\<lambda>ratioText.
       Inr (prompt @ ''Compose the image for a '' @ ratioText
              @ '' aspect ratio. Make it visually stunning and designed to maximize click-through rate. Bold, professional, and impossible to ignore.''))))))"

section \<open>Reading a response body as JSON\<close>

text \<open>
  A buffer is its list of bytes, and so is the text decoded from it: \<^verbatim>\<open>trim\<close> removes white
  space and line terminators from both ends, here as their UTF-8 encodings (the ASCII ones,
  U+00A0, U+1680, U+2000 to U+200A, U+2028, U+2029, U+202F, U+205F, U+3000, U+FEFF).
\<close>

definition whiteSpace :: "string list" where
  "whiteSpace =
    [[CHR 0x09], [CHR 0x0A], [CHR 0x0B], [CHR 0x0C], [CHR 0x0D], [CHR 0x20],
     [CHR 0xC2, CHR 0xA0],
     [CHR 0xE1, CHR 0x9A, CHR 0x80],
     [CHR 0xE2, CHR 0x80, CHR 0x80], [CHR 0xE2, CHR 0x80, CHR 0x81],
     [CHR 0xE2, CHR 0x80, CHR 0x82], [CHR 0xE2, CHR 0x80, CHR 0x83],
     [CHR 0xE2, CHR 0x80, CHR 0x84], [CHR 0xE2, CHR 0x80, CHR 0x85],
     [CHR 0xE2, CHR 0x80, CHR 0x86], [CHR 0xE2, CHR 0x80, CHR 0x87],
     [CHR 0xE2, CHR 0x80, CHR 0x88], [CHR 0xE2, CHR 0x80, CHR 0x89],
     [CHR 0xE2, CHR 0x80, CHR 0x8A],
     [CHR 0xE2, CHR 0x80, CHR 0xA8], [CHR 0xE2, CHR 0x80, CHR 0xA9],
     [CHR 0xE2, CHR 0x80, CHR 0xAF],
     [CHR 0xE2, CHR 0x81, CHR 0x9F],
     [CHR 0xE3, CHR 0x80, CHR 0x80],
     [CHR 0xEF, CHR 0xBB, CHR 0xBF]]"

fun startsWith :: "string \<Rightarrow> string \<Rightarrow> bool" where
  "startsWith s [] = True"
| "startsWith [] (c # w) = False"
| "startsWith (x # s) (c # w) = (x = c \<and> startsWith s w)"

text \<open>Removing from the front, as long as one of the given sequences starts the text.\<close>

function strip :: "string list \<Rightarrow> string \<Rightarrow> string" where
  "strip seqs s =
     (case find (\<lambda>w. w \<noteq> [] \<and> startsWith s w) seqs of
        Some w \<Rightarrow> strip seqs (drop (length w) s)
      | None \<Rightarrow> s)"
  by pat_completeness auto
termination
proof (relation "measure (\<lambda>(seqs, s). length s)")
  show "wf (measure (\<lambda>(seqs, s). length s))" by simp
next
  fix seqs :: "string list" and s w :: string
  assume "find (\<lambda>w. w \<noteq> [] \<and> startsWith s w) seqs = Some w"
  then have w: "w \<noteq> []" and sw: "startsWith s w"
    by (auto simp: find_Some_iff)
  from sw w have "s \<noteq> []" by (cases s; cases w) auto
  with w show "((seqs, drop (length w) s), (seqs, s)) \<in> measure (\<lambda>(seqs, s). length s)"
    by (cases w) auto
qed

declare strip.simps [simp del]

definition trim :: "string \<Rightarrow> string" where
  "trim s = rev (strip (map rev whiteSpace) (rev (strip whiteSpace s)))"

text \<open>
  \<^verbatim>\<open>tryParseBufferAsJson\<close> (lines 73 to 85). The parser of the runtime is a parameter:
  \<open>JSON_parse t\<close> is the value \<^verbatim>\<open>JSON.parse\<close> returns for the text \<open>t\<close>, and \<open>None\<close> when it
  throws. The result \<open>None\<close> of the function is the \<^verbatim>\<open>null\<close> it returns.
\<close>

definition tryParseBufferAsJson :: "(string \<Rightarrow> json option) \<Rightarrow> string \<Rightarrow> json option" where
  "tryParseBufferAsJson JSON_parse buf =
     (let text = trim buf
      in case text of
           [] \<Rightarrow> None
         | c # cs \<Rightarrow> if c = CHR ''{'' \<or> c = CHR ''['' then JSON_parse text else None)"

text \<open>Reading a member of a parsed value: only an object has the members tested here.\<close>

fun member :: "json \<Rightarrow> string \<Rightarrow> jsval" where
  "member (JObj kvs) k = map_of kvs k"
| "member j k = None"

section \<open>The inference call and its response\<close>

text \<open>
  What the HTTP client resolves with: status code, header map (names in lower case) and
  the body as a byte buffer (the response type asked for is \<^verbatim>\<open>arraybuffer\<close>).
\<close>

record hfResp =
  status :: nat
  headers :: "(string \<times> string) list"
  data :: string

text \<open>
  The truth value of a buffer in a condition, as in \<^verbatim>\<open>&& hfResp.data\<close> (line 166): a
  buffer is an object, and every object is truthy, the empty buffer too.
\<close>

definition truthyBuffer :: "string \<Rightarrow> bool" where
  "truthyBuffer buffer = True"

text \<open>\<^verbatim>\<open>err?.message || err\<close>: the message when there is one, else the thrown value.\<close>

definition message_or_value :: "exn \<Rightarrow> string + exn" where
  "message_or_value err = (if message err \<noteq> [] then Inl (message err) else Inr err)"

text \<open>
  \<^verbatim>\<open>callHuggingFaceRouter\<close> (lines 45 to 67): one POST of the prompt to the URL of the model.
  The HTTP client is a parameter; it resolves for every status (\<^verbatim>\<open>validateStatus\<close> accepts
  all) and rejects (\<open>Inl\<close>) on a network failure or after the timeout.
\<close>

definition callHuggingFaceRouter ::
    "(string \<Rightarrow> string \<Rightarrow> exn + hfResp) \<Rightarrow> string \<Rightarrow> string \<Rightarrow> exn + hfResp" where
  "callHuggingFaceRouter axios_post modelId prompt =
     axios_post (''https://router.huggingface.co/models/'' @ modelId) prompt"

section \<open>Classifying a response\<close>

text \<open>Lower case of a header value: the letters A to Z change, every other byte stays.\<close>

definition lower :: "char \<Rightarrow> char" where
  "lower c =
     (case map_of (zip ''ABCDEFGHIJKLMNOPQRSTUVWXYZ'' ''abcdefghijklmnopqrstuvwxyz'') c of
        Some l \<Rightarrow> l
      | None \<Rightarrow> c)"

definition toLowerCase :: "string \<Rightarrow> string" where
  "toLowerCase s = map lower s"

fun includesStr :: "string \<Rightarrow> string \<Rightarrow> bool" where
  "includesStr [] w = (w = [])"
| "includesStr (x # s) w = (startsWith (x # s) w \<or> includesStr s w)"

definition isPng :: "string \<Rightarrow> bool" where
  "isPng buffer =
     (take 8 buffer = [CHR 0x89, CHR 0x50, CHR 0x4E, CHR 0x47, CHR 0x0D, CHR 0x0A, CHR 0x1A, CHR 0x0A])"

definition isJpeg :: "string \<Rightarrow> bool" where
  "isJpeg buffer = (take 3 buffer = [CHR 0xFF, CHR 0xD8, CHR 0xFF])"

text \<open>
  The four outcomes of the tests a response goes through inside the loop (lines 143 to
  184), each with what the loop keeps of it.
\<close>

datatype classified =
    JsonError nat json
  | JsonContentType nat "json option"
  | Image string
  | Opaque nat "(string \<times> string) list"

definition hasErrorField :: "json \<Rightarrow> bool" where
  "hasErrorField parsedJson =
     (truthy (member parsedJson ''error'') \<or> truthy (member parsedJson ''detail'')
      \<or> truthy (member parsedJson ''message''))"

definition contentType :: "hfResp \<Rightarrow> string" where
  "contentType r =
     toLowerCase (case map_of (headers r) ''content-type'' of None \<Rightarrow> [] | Some v \<Rightarrow> v)"

text \<open>Lines 153 to 184: what follows when the body is no JSON error.\<close>

definition classifyRest :: "(string \<Rightarrow> json option) \<Rightarrow> hfResp \<Rightarrow> classified" where
  "classifyRest JSON_parse r =
     (if includesStr (contentType r) ''application/json''
      then JsonContentType (status r) (tryParseBufferAsJson JSON_parse (data r))
      else if 200 \<le> status r \<and> status r < 300 \<and> truthyBuffer (data r)
      then (if isPng (data r) \<or> isJpeg (data r) then Image (data r) else Image (data r))
      else Opaque (status r) (headers r))"

text \<open>Lines 143 to 151 first.\<close>

definition classify :: "(string \<Rightarrow> json option) \<Rightarrow> hfResp \<Rightarrow> classified" where
  "classify JSON_parse r =
     (case tryParseBufferAsJson JSON_parse (data r) of
        None \<Rightarrow> classifyRest JSON_parse r
      | Some parsedJson \<Rightarrow>
          if truthy_json parsedJson \<and> hasErrorField parsedJson
          then JsonError (status r) parsedJson
          else classifyRest JSON_parse r)"

section \<open>The model fallback loop\<close>

datatype lastError =
    ErrBody string nat "json option"
  | ErrHeaders string nat "(string \<times> string) list"
  | ErrThrown string "string + exn"

text \<open>
  The variables the loop assigns, and the models it has called, in order (each call is
  announced on the console before it is made).
\<close>

record loopState =
  lastError :: "lastError option"
  finalBuffer :: "string option"
  hfResponseHeaders :: "(string \<times> string) list option"
  called :: "string list"

definition initialLoopState :: loopState where
  "initialLoopState =
     \<lparr>lastError = None, finalBuffer = None, hfResponseHeaders = None, called = []\<rparr>"

definition nonRetryable :: "nat \<Rightarrow> bool" where
  "nonRetryable st = (400 \<le> st \<and> st < 500 \<and> st \<noteq> 429)"

definition modelsToTry :: "string list" where
  "modelsToTry =
     [''stabilityai/stable-diffusion-3.5'',
      ''runwayml/stable-diffusion-v1-5'',
      ''stabilityai/stable-diffusion-xl-1024-v1-0'']"

text \<open>
  One pass of the loop body for one model (lines 137 to 188). The flag returned says
  whether the pass ends in \<^verbatim>\<open>break\<close>.
\<close>

definition tryModel ::
    "(string \<Rightarrow> json option) \<Rightarrow> (string \<Rightarrow> string \<Rightarrow> exn + hfResp) \<Rightarrow> string
      \<Rightarrow> loopState \<Rightarrow> string \<Rightarrow> loopState \<times> bool" where
  "tryModel JSON_parse axios_post prompt s modelId =
     (let s = s\<lparr>called := called s @ [modelId]\<rparr>
      in case callHuggingFaceRouter axios_post modelId prompt of
           Inl innerErr \<Rightarrow>
             (s\<lparr>lastError := Some (ErrThrown modelId (message_or_value innerErr))\<rparr>, False)
         | Inr r \<Rightarrow>
             (let s = s\<lparr>hfResponseHeaders := Some (headers r)\<rparr>
              in case classify JSON_parse r of
                   JsonError st parsedJson \<Rightarrow>
                     (s\<lparr>lastError := Some (ErrBody modelId st (Some parsedJson))\<rparr>,
                      nonRetryable st)
                 | JsonContentType st parsed \<Rightarrow>
                     (s\<lparr>lastError := Some (ErrBody modelId st parsed)\<rparr>, nonRetryable st)
                 | Image buffer \<Rightarrow> (s\<lparr>finalBuffer := Some buffer\<rparr>, True)
                 | Opaque st hs \<Rightarrow> (s\<lparr>lastError := Some (ErrHeaders modelId st hs)\<rparr>, False)))"

fun fallbackLoop ::
    "(string \<Rightarrow> json option) \<Rightarrow> (string \<Rightarrow> string \<Rightarrow> exn + hfResp) \<Rightarrow> string
      \<Rightarrow> loopState \<Rightarrow> string list \<Rightarrow> loopState" where
  "fallbackLoop JSON_parse axios_post prompt s [] = s"
| "fallbackLoop JSON_parse axios_post prompt s (modelId # rest) =
     (case tryModel JSON_parse axios_post prompt s modelId of
        (s', stop) \<Rightarrow> if stop then s' else fallbackLoop JSON_parse axios_post prompt s' rest)"

section \<open>The thumbnail record and the collaborators\<close>

text \<open>
  Modelled from the spec: the schema of the thumbnail record (the model file is not among
  the sources). A record has an owner, the attributes of the request, the prompt used,
  the in-progress flag and an image URL that is absent until success.
\<close>

record thumbnail =
  userId :: string
  title :: jsval
  prompt_used :: jsval
  user_prompt :: jsval
  style :: jsval
  aspect_ratio :: jsval
  color_scheme :: jsval
  text_overlay :: jsval
  isGenerating :: bool
  image_url :: "string option"

text \<open>A generation request: the user of the session and the fields of the body.\<close>

record request =
  session_userId :: string
  body_title :: jsval
  body_prompt :: jsval
  body_style :: jsval
  body_aspect_ratio :: jsval
  body_color_scheme :: jsval
  body_text_overlay :: jsval

text \<open>What the inference SDK of the near-duplicate controller resolves with.\<close>

datatype sdkImage = Base64 string | Blob string

text \<open>
  The collaborators of one request: the JSON parser of the runtime, the HTTP client, the
  image CDN, the clock, the inference SDK and the base64 decoder of the runtime, and what
  the document store does: \<open>create_error\<close> is the rejection of the create, if it rejects,
  and \<open>save_error n\<close> the rejection of the \<open>n\<close>-th save of the request, counted from 0.
\<close>

record env =
  JSON_parse :: "string \<Rightarrow> json option"
  axios_post :: "string \<Rightarrow> string \<Rightarrow> exn + hfResp"
  create_error :: "exn option"
  save_error :: "nat \<Rightarrow> exn option"
  imagekit_upload :: "string \<Rightarrow> string \<Rightarrow> exn + string"
  Date_now :: number
  textToImage :: "string \<Rightarrow> string \<Rightarrow> exn + sdkImage"
  base64_decode :: "string \<Rightarrow> string"

text \<open>The store as one request sees it: its record as persisted, and the saves made.\<close>

record world =
  persisted :: "thumbnail option"
  saves :: nat

definition initialWorld :: world where
  "initialWorld = \<lparr>persisted = None, saves = 0\<rparr>"

text \<open>The document handed to \<^verbatim>\<open>Thumbnail.create\<close> (lines 103 to 113).\<close>

definition Thumbnail_create :: "request \<Rightarrow> thumbnail" where
  "Thumbnail_create req =
     \<lparr>userId = session_userId req,
      title = body_title req,
      prompt_used = body_prompt req,
      user_prompt = body_prompt req,
      style = body_style req,
      aspect_ratio = body_aspect_ratio req,
      color_scheme = body_color_scheme req,
      text_overlay = body_text_overlay req,
      isGenerating = True,
      image_url = None\<rparr>"

text \<open>\<^verbatim>\<open>await thumbnail.save()\<close>: the rejection, if any, and the store afterwards.\<close>

definition save :: "env \<Rightarrow> thumbnail \<Rightarrow> world \<Rightarrow> exn option \<times> world" where
  "save e t w =
     (case save_error e (saves w) of
        Some err \<Rightarrow> (Some err, w\<lparr>saves := Suc (saves w)\<rparr>)
      | None \<Rightarrow> (None, \<lparr>persisted = Some t, saves = Suc (saves w)\<rparr>))"

section \<open>HTTP responses\<close>

datatype body =
    ThumbnailGenerated thumbnail
  | GenerationFailed "lastError option" "(string \<times> string) list option"
  | UploadFailed "string + exn"
  | RouterError json
  | ServerError string
  | ThumbnailDeleted

fun body_message :: "body \<Rightarrow> string" where
  "body_message (ThumbnailGenerated t) = ''Thumbnail Generated''"
| "body_message (GenerationFailed le hs) = ''Failed to generate image from Hugging Face models''"
| "body_message (UploadFailed err) = ''Image upload failed''"
| "body_message (RouterError parsed) = ''HF Router Error''"
| "body_message (ServerError m) = m"
| "body_message ThumbnailDeleted = ''Thumbnail Deleted Successfully''"

record res =
  res_status :: nat
  res_json :: body

section \<open>The generation handler\<close>

text \<open>Lines 230 to 236: the response of the outer \<^verbatim>\<open>catch\<close>.\<close>

definition unexpectedResponse :: "env \<Rightarrow> exn \<Rightarrow> res" where
  "unexpectedResponse e error =
     (let generic =
            \<lparr>res_status = 500,
             res_json = ServerError (if message error \<noteq> [] then message error
                                     else ''Unknown server error'')\<rparr>
      in case response error of
           None \<Rightarrow> generic
         | Some (st, d) \<Rightarrow>
             (case tryParseBufferAsJson (JSON_parse e) d of
                None \<Rightarrow> generic
              | Some parsed \<Rightarrow>
                  if truthy_json parsed
                  then \<lparr>res_status = (if st = 0 then 500 else st), res_json = RouterError parsed\<rparr>
                  else generic))"

text \<open>
  Lines 224 to 237. A handler returns the response it sent, \<open>None\<close> when a rejection
  leaves it before any response, and the store.
\<close>

definition outerCatch :: "env \<Rightarrow> thumbnail option \<Rightarrow> world \<Rightarrow> exn \<Rightarrow> res option \<times> world" where
  "outerCatch e thumb w error =
     (case thumb of
        None \<Rightarrow> (Some (unexpectedResponse e error), w)
      | Some t \<Rightarrow>
          (case save e (t\<lparr>isGenerating := False\<rparr>) w of
             (Some err, w') \<Rightarrow> (None, w')
           | (None, w') \<Rightarrow> (Some (unexpectedResponse e error), w')))"

text \<open>Lines 218 to 223: the \<^verbatim>\<open>catch\<close> around the upload and the save that follows it.\<close>

definition uploadCatch :: "env \<Rightarrow> thumbnail \<Rightarrow> world \<Rightarrow> exn \<Rightarrow> res option \<times> world" where
  "uploadCatch e t w uploadErr =
     (let t = t\<lparr>isGenerating := False\<rparr>
      in case save e t w of
           (Some err, w') \<Rightarrow> outerCatch e (Some t) w' err
         | (None, w') \<Rightarrow>
             (Some \<lparr>res_status = 500, res_json = UploadFailed (message_or_value uploadErr)\<rparr>, w'))"

text \<open>The prompt of a request: composed, or the error the composition throws.\<close>

definition requestPrompt :: "request \<Rightarrow> exn + string" where
  "requestPrompt req =
     composePrompt (body_title req) (body_prompt req) (body_style req)
       (body_aspect_ratio req) (body_color_scheme req)"

text \<open>The loop of the handler: over the three models, from the initial values.\<close>

definition runFallback :: "env \<Rightarrow> string \<Rightarrow> loopState" where
  "runFallback e prompt =
     fallbackLoop (JSON_parse e) (axios_post e) prompt initialLoopState modelsToTry"

text \<open>The name of the uploaded file carries the clock reading (line 205).\<close>

definition uploadName :: "env \<Rightarrow> string" where
  "uploadName e = ''final-output-'' @ Date_now e @ ''.png''"

text \<open>
  \<^verbatim>\<open>generateThumbnail\<close> of the controller (lines 90 to 238). An error thrown while the
  prompt is composed (lines 116 to 123) is inside the outer \<^verbatim>\<open>try\<close> and after the create,
  so the outer \<^verbatim>\<open>catch\<close> receives it with the record at hand. The test \<^verbatim>\<open>!finalBuffer\<close>
  (line 192) holds exactly when the loop assigned no buffer: the variable is \<^verbatim>\<open>null\<close> or
  a buffer object.
\<close>

definition generateThumbnail :: "env \<Rightarrow> request \<Rightarrow> res option \<times> world" where
  "generateThumbnail e req =
     (case create_error e of
        Some error \<Rightarrow> outerCatch e None initialWorld error
      | None \<Rightarrow>
          (let t = Thumbnail_create req;
               w = initialWorld\<lparr>persisted := Some t\<rparr>
           in case requestPrompt req of
                Inl error \<Rightarrow> outerCatch e (Some t) w error
              | Inr prompt \<Rightarrow>
                  (let l = runFallback e prompt
                   in case finalBuffer l of
                        None \<Rightarrow>
                          (let t = t\<lparr>isGenerating := False\<rparr>
                           in case save e t w of
                                (Some error, w') \<Rightarrow> outerCatch e (Some t) w' error
                              | (None, w') \<Rightarrow>
                                  (Some \<lparr>res_status = 502,
                                         res_json = GenerationFailed (lastError l)
                                                      (hfResponseHeaders l)\<rparr>,
                                   w'))
                      | Some buffer \<Rightarrow>
                          (case imagekit_upload e buffer (uploadName e) of
                             Inl uploadErr \<Rightarrow> uploadCatch e t w uploadErr
                           | Inr url \<Rightarrow>
                               (let t = t\<lparr>image_url := Some url, isGenerating := False\<rparr>
                                in case save e t w of
                                     (Some error, w') \<Rightarrow> uploadCatch e t w' error
                                   | (None, w') \<Rightarrow>
                                       (Some \<lparr>res_status = 200,
                                              res_json = ThumbnailGenerated t\<rparr>,
                                        w'))))))"

section \<open>The near-duplicate handler\<close>

text \<open>
  \<^verbatim>\<open>generateThumbnail\<close> of the second controller file (its lines 37 to 115): one model
  through the SDK, one \<^verbatim>\<open>catch\<close> that only answers.
\<close>

definition sdkCatch :: "world \<Rightarrow> exn \<Rightarrow> res option \<times> world" where
  "sdkCatch w error = (Some \<lparr>res_status = 500, res_json = ServerError (message error)\<rparr>, w)"

definition sdkPrompt :: "request \<Rightarrow> exn + string" where
  "sdkPrompt req =
     composePrompt_sdk (body_title req) (body_prompt req) (body_style req)
       (body_aspect_ratio req) (body_color_scheme req)"

text \<open>Lines 87 to 94: the SDK returns base64 text or a blob; both become a buffer.\<close>

definition sdkBuffer :: "env \<Rightarrow> sdkImage \<Rightarrow> string" where
  "sdkBuffer e imageBlob = (case imageBlob of Base64 s \<Rightarrow> base64_decode e s | Blob b \<Rightarrow> b)"

definition sdkUploadName :: "env \<Rightarrow> string" where
  "sdkUploadName e = ''thumbnail-'' @ Date_now e @ ''.png''"

definition generateThumbnail_sdk :: "env \<Rightarrow> request \<Rightarrow> res option \<times> world" where
  "generateThumbnail_sdk e req =
     (case create_error e of
        Some error \<Rightarrow> sdkCatch initialWorld error
      | None \<Rightarrow>
          (let t = Thumbnail_create req;
               w = initialWorld\<lparr>persisted := Some t\<rparr>
           in case sdkPrompt req of
                Inl error \<Rightarrow> sdkCatch w error
              | Inr p \<Rightarrow>
                  (case textToImage e ''black-forest-labs/FLUX.1-schnell'' p of
                     Inl error \<Rightarrow> sdkCatch w error
                   | Inr imageBlob \<Rightarrow>
                       (let buffer = sdkBuffer e imageBlob
                        in case imagekit_upload e buffer (sdkUploadName e) of
                             Inl error \<Rightarrow> sdkCatch w error
                           | Inr url \<Rightarrow>
                               (let t = t\<lparr>image_url := Some url, prompt_used := Some (JStr p),
                                           isGenerating := False\<rparr>
                                in case save e t w of
                                     (Some error, w') \<Rightarrow> sdkCatch w' error
                                   | (None, w') \<Rightarrow>
                                       (Some \<lparr>res_status = 200,
                                              res_json = ThumbnailGenerated t\<rparr>,
                                        w'))))))"

section \<open>The delete handler\<close>

text \<open>
  The collection, by record id. \<^verbatim>\<open>findByIdAndDelete(x)\<close> of the document mapper is its
  \<^verbatim>\<open>findOneAndDelete({ _id: x })\<close>: the argument is the id to match. An object given
  there is cast to an id by taking its \<^verbatim>\<open>_id\<close> member; its other members take no part in
  the match. A value that yields no id matches nothing.
\<close>

type_synonym collection = "string \<rightharpoonup> thumbnail"

definition findByIdAndDelete :: "json \<Rightarrow> collection \<Rightarrow> collection" where
  "findByIdAndDelete x db =
     (case x of
        JStr i \<Rightarrow> db(i := None)
      | JObj kvs \<Rightarrow> (case map_of kvs ''_id'' of Some (JStr i) \<Rightarrow> db(i := None) | _ \<Rightarrow> db)
      | _ \<Rightarrow> db)"

record deleteRequest =
  params_id :: string
  del_session_userId :: string

text \<open>
  \<^verbatim>\<open>deleteThumbnail\<close> (lines 243 to 255). \<open>db_error\<close> is the rejection of the store call, if
  it rejects (an id that cannot be cast, a lost connection).
\<close>

definition deleteThumbnail :: "exn option \<Rightarrow> deleteRequest \<Rightarrow> collection \<Rightarrow> res \<times> collection" where
  "deleteThumbnail db_error req db =
     (case db_error of
        Some error \<Rightarrow> (\<lparr>res_status = 500, res_json = ServerError (message error)\<rparr>, db)
      | None \<Rightarrow>
          (\<lparr>res_status = 200, res_json = ThumbnailDeleted\<rparr>,
           findByIdAndDelete
             (JObj [(''_id'', JStr (params_id req)), (''userId'', JStr (del_session_userId req))])
             db))"

section \<open>Notions the stated properties use\<close>

text \<open>
  The prompt as the specification describes it: style description and title, then the
  colour description if there is one, then the free text if there is one, then the
  closing sentence with the aspect ratio.
\<close>

definition spec_prompt ::
    "string \<Rightarrow> string \<Rightarrow> string option \<Rightarrow> string option \<Rightarrow> string \<Rightarrow> string" where
  "spec_prompt styleDescription ttl colorDescription freeText ratio =
     (''Create a '' @ styleDescription @ '' for: \"'' @ ttl @ ''\" '')
     @ (case colorDescription of None \<Rightarrow> [] | Some cd \<Rightarrow> ''Use a '' @ cd @ '' color scheme. '')
     @ (case freeText of None \<Rightarrow> [] | Some u \<Rightarrow> ''Additional details: '' @ u @ '' '')
     @ (''The thumbnail should be '' @ ratio
          @ '', visually stunning, and designed to maximize click-through rate. Make it bold, professional, and impossible to ignore.'')"

text \<open>A free text that is given: the empty text counts as none.\<close>

definition given :: "string option \<Rightarrow> string option" where
  "given u = (case u of None \<Rightarrow> None | Some v \<Rightarrow> if v = [] then None else Some v)"

text \<open>The leading byte of the buffer, white space apart, opens a JSON object or array.\<close>

definition leadingJson :: "string \<Rightarrow> bool" where
  "leadingJson buf = (case trim buf of [] \<Rightarrow> False | c # cs \<Rightarrow> c = CHR ''{'' \<or> c = CHR ''['')"

text \<open>
  The buffer is a JSON error body: it opens as JSON, parses to \<open>j\<close>, and \<open>j\<close> has a truthy
  \<^verbatim>\<open>error\<close>, \<^verbatim>\<open>detail\<close> or \<^verbatim>\<open>message\<close> member.
\<close>

definition jsonErrorBody :: "(string \<Rightarrow> json option) \<Rightarrow> string \<Rightarrow> json \<Rightarrow> bool" where
  "jsonErrorBody parse buf j = (leadingJson buf \<and> parse (trim buf) = Some j \<and> hasErrorField j)"

definition jsonContentType :: "hfResp \<Rightarrow> bool" where
  "jsonContentType r = includesStr (contentType r) ''application/json''"

text \<open>
  A candidate the loop goes past as retryable: its call threw, or its response is an
  error of any of the three kinds with a status of 500 or more, or 429.
\<close>

definition passesOn :: "(string \<Rightarrow> json option) \<Rightarrow> exn + hfResp \<Rightarrow> bool" where
  "passesOn parse out =
     (case out of
        Inl innerErr \<Rightarrow> True
      | Inr r \<Rightarrow>
          (case classify parse r of
             JsonError st j \<Rightarrow> 500 \<le> st \<or> st = 429
           | JsonContentType st jo \<Rightarrow> 500 \<le> st \<or> st = 429
           | Image b \<Rightarrow> False
           | Opaque st hs \<Rightarrow> 500 \<le> st \<or> st = 429))"

definition successResponse :: "res \<Rightarrow> bool" where
  "successResponse r = (case res_json r of ThumbnailGenerated t \<Rightarrow> True | _ \<Rightarrow> False)"

text \<open>
  The first exception the near-duplicate handler meets after it created the record: of
  the prompt composition, else of the inference call, else of the upload, else of the
  save.
\<close>

definition sdkFailure :: "env \<Rightarrow> request \<Rightarrow> exn option" where
  "sdkFailure e req =
     (case sdkPrompt req of
        Inl error \<Rightarrow> Some error
      | Inr p \<Rightarrow>
          (case textToImage e ''black-forest-labs/FLUX.1-schnell'' p of
             Inl error \<Rightarrow> Some error
           | Inr imageBlob \<Rightarrow>
               (case imagekit_upload e (sdkBuffer e imageBlob) (sdkUploadName e) of
                  Inl error \<Rightarrow> Some error
                | Inr url \<Rightarrow> save_error e 0)))"

section \<open>Sample collaborators\<close>

text \<open>
  A parser that agrees with \<^verbatim>\<open>JSON.parse\<close> on the texts listed. The examples below hand it
  no other text.
\<close>

definition JSON_parse_sample :: "string \<Rightarrow> json option" where
  "JSON_parse_sample t =
     map_of
       [(''{\"error\":\"\"}'', JObj [(''error'', JStr [])]),
        (''{\"error\":\"Model not found\"}'', JObj [(''error'', JStr ''Model not found'')]),
        (''{\"error\":\"Internal error\"}'', JObj [(''error'', JStr ''Internal error'')]),
        (''{\"error\":\"Rate limit reached\"}'', JObj [(''error'', JStr ''Rate limit reached'')]),
        (''{\"estimated_time\":20}'', JObj [(''estimated_time'', JNum ''20'')])]
       t"

definition pngBytes :: string where
  "pngBytes = [CHR 0x89, CHR 0x50, CHR 0x4E, CHR 0x47, CHR 0x0D, CHR 0x0A, CHR 0x1A, CHR 0x0A,
               CHR 0x00, CHR 0x00, CHR 0x00, CHR 0x0D]"

definition routerUrl :: "string \<Rightarrow> string" where
  "routerUrl modelId = ''https://router.huggingface.co/models/'' @ modelId"

text \<open>Status 500, then 429, both with a JSON error body, then a PNG; any other model times out.\<close>

definition sampleRouter :: "string \<Rightarrow> string \<Rightarrow> exn + hfResp" where
  "sampleRouter url inputs =
     (if url = routerUrl ''stabilityai/stable-diffusion-3.5''
      then Inr \<lparr>status = 500, headers = [(''content-type'', ''application/json'')],
                data = ''{\"error\":\"Internal error\"}''\<rparr>
      else if url = routerUrl ''runwayml/stable-diffusion-v1-5''
      then Inr \<lparr>status = 429, headers = [(''content-type'', ''application/json'')],
                data = ''{\"error\":\"Rate limit reached\"}''\<rparr>
      else if url = routerUrl ''stabilityai/stable-diffusion-xl-1024-v1-0''
      then Inr \<lparr>status = 200, headers = [(''content-type'', ''image/png'')], data = pngBytes\<rparr>
      else Inl (Exn ''timeout of 120000ms exceeded'' None))"

text \<open>Status 404 with a JSON error body, for every model.\<close>

definition modelNotFound :: hfResp where
  "modelNotFound =
     \<lparr>status = 404, headers = [(''content-type'', ''application/json'')],
      data = ''{\"error\":\"Model not found\"}''\<rparr>"

definition notFoundRouter :: "string \<Rightarrow> string \<Rightarrow> exn + hfResp" where
  "notFoundRouter url inputs = Inr modelNotFound"

text \<open>Status 404 with a plain page, for every model.\<close>

definition notFoundPage :: hfResp where
  "notFoundPage =
     \<lparr>status = 404, headers = [(''content-type'', ''text/plain'')], data = ''Not Found''\<rparr>"

definition pageRouter :: "string \<Rightarrow> string \<Rightarrow> exn + hfResp" where
  "pageRouter url inputs = Inr notFoundPage"

text \<open>Status 200 and an image content type, with a body that reads as JSON.\<close>

definition emptyErrorBody :: hfResp where
  "emptyErrorBody =
     \<lparr>status = 200, headers = [(''content-type'', ''image/png'')], data = ''{\"error\":\"\"}''\<rparr>"

text \<open>Status 503 with a JSON content type and a body without an error member.\<close>

definition loadingBody :: hfResp where
  "loadingBody =
     \<lparr>status = 503, headers = [(''content-type'', ''Application/JSON; charset=utf-8'')],
      data = ''{\"estimated_time\":20}''\<rparr>"

text \<open>Status 200, a body with no image signature.\<close>

definition unsignedImage :: hfResp where
  "unsignedImage =
     \<lparr>status = 200, headers = [(''content-type'', ''image/webp'')], data = ''RIFF''\<rparr>"

definition sampleUpload :: "string \<Rightarrow> string \<Rightarrow> exn + string" where
  "sampleUpload file fileName = Inr ''https://ik.imagekit.io/demo/final-output.png''"

definition failingUpload :: "string \<Rightarrow> string \<Rightarrow> exn + string" where
  "failingUpload file fileName = Inl (Exn ''upload rejected'' None)"

definition noSaveError :: "nat \<Rightarrow> exn option" where
  "noSaveError n = None"

text \<open>The first save is rejected, the later ones are accepted.\<close>

definition firstSaveFails :: "nat \<Rightarrow> exn option" where
  "firstSaveFails n = (if n = 0 then Some (Exn ''connection lost'' None) else None)"

definition sampleTextToImage :: "string \<Rightarrow> string \<Rightarrow> exn + sdkImage" where
  "sampleTextToImage modelId inputs = Inr (Blob pngBytes)"

definition identityDecode :: "string \<Rightarrow> string" where
  "identityDecode s = s"

text \<open>Every collaborator answers; the third model returns an image.\<close>

definition sampleEnv :: env where
  "sampleEnv =
     \<lparr>JSON_parse = JSON_parse_sample,
      axios_post = sampleRouter,
      create_error = None,
      save_error = noSaveError,
      imagekit_upload = sampleUpload,
      Date_now = ''1700000000000'',
      textToImage = sampleTextToImage,
      base64_decode = identityDecode\<rparr>"

definition sampleRequest :: request where
  "sampleRequest =
     \<lparr>session_userId = ''alice'',
      body_title = Some (JStr ''Cats''),
      body_prompt = Some (JStr ''a red fox''),
      body_style = Some (JStr ''Minimalist''),
      body_aspect_ratio = Some (JStr ''16:9''),
      body_color_scheme = Some (JStr ''neon''),
      body_text_overlay = Some (JBool False)\<rparr>"

text \<open>The prompt composed for the sample request.\<close>

definition samplePrompt :: string where
  "samplePrompt = ''Create a minimalist thumbnail, clean layout, simple shapes, limited color palette, plenty of negative space, modern flat design, clear focal point for: \"Cats\" Use a neon glow effects, electric blues and pinks, cyberpunk lighting, high contrast glow color scheme. Additional details: a red fox The thumbnail should be 16:9, visually stunning, and designed to maximize click-through rate. Make it bold, professional, and impossible to ignore.''"

text \<open>
  The sample request with the style \<^verbatim>\<open>{"toString": "x"}\<close>: an object that cannot be
  converted to a property name.
\<close>

definition objectStyleRequest :: request where
  "objectStyleRequest = sampleRequest\<lparr>body_style := Some (JObj [(''toString'', JStr ''x'')])\<rparr>"

text \<open>A stored record of the user alice, under the id \<^verbatim>\<open>t1\<close>, and a request of the user bob.\<close>

definition aliceRecord :: thumbnail where
  "aliceRecord =
     (Thumbnail_create sampleRequest)
       \<lparr>isGenerating := False, image_url := Some ''https://ik.imagekit.io/demo/final-output.png''\<rparr>"

definition aliceCollection :: collection where
  "aliceCollection = [''t1'' \<mapsto> aliceRecord]"

definition bobDelete :: deleteRequest where
  "bobDelete = \<lparr>params_id = ''t1'', del_session_userId = ''bob''\<rparr>"

section \<open>Evaluation rules for the sample collaborators\<close>

lemmas classify_defs =
  classify_def classifyRest_def tryParseBufferAsJson_def trim_def strip.simps whiteSpace_def
  hasErrorField_def contentType_def toLowerCase_def lower_def isPng_def isJpeg_def
  truthyBuffer_def

lemmas loop_defs =
  tryModel_def callHuggingFaceRouter_def nonRetryable_def initialLoopState_def modelsToTry_def
  Let_def

lemmas sample_defs =
  sampleEnv_def sampleRequest_def sampleRouter_def routerUrl_def JSON_parse_sample_def
  pngBytes_def sampleUpload_def noSaveError_def firstSaveFails_def pageRouter_def
  notFoundPage_def notFoundRouter_def modelNotFound_def emptyErrorBody_def loadingBody_def
  unsignedImage_def

lemmas handler_defs =
  generateThumbnail_def runFallback_def save_def uploadCatch_def outerCatch_def
  unexpectedResponse_def Thumbnail_create_def initialWorld_def message_or_value_def

section \<open>The prompt composer\<close>

lemma color_key_nonempty: "map_of colorSchemeDescriptions k = Some cd \<Longrightarrow> k \<noteq> []"
  by (auto simp: colorSchemeDescriptions_def)

lemma lookup_text_own: "map_of table k = Some d \<Longrightarrow> lookup_text table (Some (JStr k)) = Inr d"
  by (simp add: lookup_text_def andThen_def)

lemma lookup_text_missing:
  "js_string key = Inr k \<Longrightarrow> map_of table k = None \<Longrightarrow> map_of Object_prototype k = None \<Longrightarrow>
     lookup_text table key = Inr ''undefined''"
  by (simp add: lookup_text_def andThen_def)

lemma lookup_text_throws: "js_string key = Inl err \<Longrightarrow> lookup_text table key = Inl err"
  by (simp add: lookup_text_def andThen_def)

text \<open>
  With string inputs the composed prompt is the specified concatenation, around whatever
  text the style lookup yields; when the style lookup throws, so does the composition.
\<close>

lemma composePrompt_spec:
  assumes col: "rel_option (\<lambda>k cd. map_of colorSchemeDescriptions k = Some cd) c cdesc"
      and sty: "lookup_text stylePrompts sty = Inr sd"
  shows "composePrompt (Some (JStr t)) (map_option JStr u) sty (Some (JStr a)) (map_option JStr c)
           = Inr (spec_prompt sd t cdesc (given u) a)"
  using col sty
  by (cases c; cases cdesc; cases u)
     (auto simp: composePrompt_def andThen_def spec_prompt_def given_def lookup_text_own
        dest: color_key_nonempty)

lemma composePrompt_style_throws:
  "lookup_text stylePrompts sty = Inl err \<Longrightarrow> composePrompt ti u sty a c = Inl err"
  by (simp add: composePrompt_def andThen_def)

lemma spec_prompt_contains:
  "\<exists>p q r. spec_prompt sd t cdesc u a = p @ sd @ q @ t @ r
     \<and> (case cdesc of None \<Rightarrow> True | Some cd \<Rightarrow> \<exists>r1 r2. r = r1 @ cd @ r2)"
  unfolding spec_prompt_def
  apply (rule exI [of _ "''Create a ''"])
  apply (rule exI [of _ "'' for: \"''"])
  apply (cases cdesc)
   apply simp
  apply simp
  apply (rule exI [of _ "''\" Use a ''"])
  apply simp
  done

text \<open>
  C8. For a title, a style of the style table, an optional colour scheme of the colour
  table, an optional free text and an aspect ratio, the composer returns the one string
  the specification describes: style description with the title, then the colour
  description if a colour scheme is given, then the free text if given (an empty text
  counts as none), then the closing sentence with the aspect ratio. So the output
  contains the style description, the title and, if given, the colour description, in
  that order.
\<close>

theorem composePrompt_fixed_order:
  assumes sty: "map_of stylePrompts s = Some sd"
      and col: "rel_option (\<lambda>k cd. map_of colorSchemeDescriptions k = Some cd) c cdesc"
  shows "composePrompt (Some (JStr t)) (map_option JStr u) (Some (JStr s)) (Some (JStr a))
           (map_option JStr c) = Inr (spec_prompt sd t cdesc (given u) a)
         \<and> (\<exists>p q r. composePrompt (Some (JStr t)) (map_option JStr u) (Some (JStr s))
                       (Some (JStr a)) (map_option JStr c) = Inr (p @ sd @ q @ t @ r)
               \<and> (case cdesc of None \<Rightarrow> True | Some cd \<Rightarrow> \<exists>r1 r2. r = r1 @ cd @ r2))"
  unfolding composePrompt_spec [OF col lookup_text_own [OF sty]]
  using spec_prompt_contains by simp

theorem composePrompt_fixed_order_witness:
  "composePrompt (Some (JStr ''Cats'')) (Some (JStr ''a red fox'')) (Some (JStr ''Minimalist''))
     (Some (JStr ''16:9'')) (Some (JStr ''neon''))
   = Inr ''Create a minimalist thumbnail, clean layout, simple shapes, limited color palette, plenty of negative space, modern flat design, clear focal point for: \"Cats\" Use a neon glow effects, electric blues and pinks, cyberpunk lighting, high contrast glow color scheme. Additional details: a red fox The thumbnail should be 16:9, visually stunning, and designed to maximize click-through rate. Make it bold, professional, and impossible to ignore.''"
proof -
  have sty: "map_of stylePrompts ''Minimalist''
               = Some ''minimalist thumbnail, clean layout, simple shapes, limited color palette, plenty of negative space, modern flat design, clear focal point''"
    by (simp add: stylePrompts_def)
  have col: "rel_option (\<lambda>k cd. map_of colorSchemeDescriptions k = Some cd) (Some ''neon'')
               (Some ''neon glow effects, electric blues and pinks, cyberpunk lighting, high contrast glow'')"
    by (simp add: colorSchemeDescriptions_def)
  from composePrompt_fixed_order [OF sty col, of "''Cats''" "Some ''a red fox''" "''16:9''"]
  show ?thesis by (simp add: spec_prompt_def given_def)
qed

text \<open>
  At the style key \<^verbatim>\<open>Bogus\<close>, which the style table does not have, the composer returns a
  prompt all the same.
\<close>

theorem composePrompt_unknown_style_counterexample:
  "map_of stylePrompts ''Bogus'' = None
   \<and> composePrompt (Some (JStr ''Cats'')) None (Some (JStr ''Bogus'')) (Some (JStr ''16:9'')) None
     = Inr ''Create a undefined for: \"Cats\" The thumbnail should be 16:9, visually stunning, and designed to maximize click-through rate. Make it bold, professional, and impossible to ignore.''"
  by (simp add: stylePrompts_def composePrompt_def andThen_def lookup_text_def
        Object_prototype_def)

text \<open>
  C9, as amended. With the other fields valid (strings, colour of the colour table): for
  a style value that converts to a property name which is not in the style table, and
  which names no member inherited from \<^verbatim>\<open>Object.prototype\<close>, the composer does not
  fail: it returns the prompt of the specified shape with the word \<^verbatim>\<open>undefined\<close> where
  the style description belongs. Every string converts, to itself. For a style value
  that cannot be converted to a property name (an object with an own \<^verbatim>\<open>toString\<close>
  member, or an array holding one) the composer throws the \<^verbatim>\<open>TypeError\<close> of the
  conversion.
\<close>

theorem composePrompt_unknown_style:
  assumes col: "rel_option (\<lambda>k cd. map_of colorSchemeDescriptions k = Some cd) c cdesc"
  shows "(js_string sty = Inr k \<and> map_of stylePrompts k = None
            \<and> map_of Object_prototype k = None \<longrightarrow>
            composePrompt (Some (JStr t)) (map_option JStr u) sty (Some (JStr a))
              (map_option JStr c) = Inr (spec_prompt ''undefined'' t cdesc (given u) a))
         \<and> (js_string sty = Inl err \<longrightarrow>
            composePrompt (Some (JStr t)) (map_option JStr u) sty (Some (JStr a))
              (map_option JStr c) = Inl err)"
  using composePrompt_spec [OF col lookup_text_missing]
    composePrompt_style_throws [OF lookup_text_throws]
  by blast

theorem composePrompt_unknown_style_witness:
  "composePrompt (Some (JStr ''Dogs'')) None (Some (JStr ''Vaporwave'')) (Some (JStr ''1:1''))
     (Some (JStr ''ocean''))
   = Inr ''Create a undefined for: \"Dogs\" Use a cool blue and teal tones, aquatic color palette, fresh and clean atmosphere color scheme. The thumbnail should be 1:1, visually stunning, and designed to maximize click-through rate. Make it bold, professional, and impossible to ignore.''
   \<and> composePrompt (Some (JStr ''Dogs'')) None (Some (JObj [(''toString'', JStr ''x'')]))
       (Some (JStr ''1:1'')) (Some (JStr ''ocean''))
     = Inl TypeError"
proof -
  have key: "js_string (Some (JStr ''Vaporwave'')) = Inr ''Vaporwave''" by simp
  have own: "map_of stylePrompts ''Vaporwave'' = None"
    by (simp add: stylePrompts_def)
  have inherited: "map_of Object_prototype ''Vaporwave'' = None"
    by (simp add: Object_prototype_def)
  have thrown: "js_string (Some (JObj [(''toString'', JStr ''x'')])) = Inl TypeError" by simp
  have col: "rel_option (\<lambda>k cd. map_of colorSchemeDescriptions k = Some cd) (Some ''ocean'')
               (Some ''cool blue and teal tones, aquatic color palette, fresh and clean atmosphere'')"
    by (simp add: colorSchemeDescriptions_def)
  from composePrompt_unknown_style [OF col, where sty = "Some (JStr ''Vaporwave'')"
         and k = "''Vaporwave''" and t = "''Dogs''" and u = None and a = "''1:1''"]
       key own inherited
  have first: "composePrompt (Some (JStr ''Dogs'')) None (Some (JStr ''Vaporwave''))
                 (Some (JStr ''1:1'')) (Some (JStr ''ocean''))
               = Inr (spec_prompt ''undefined'' ''Dogs''
                        (Some ''cool blue and teal tones, aquatic color palette, fresh and clean atmosphere'')
                        (given None) ''1:1'')"
    by simp
  from composePrompt_unknown_style [OF col,
         where sty = "Some (JObj [(''toString'', JStr ''x'')])" and err = TypeError
         and t = "''Dogs''" and u = None and a = "''1:1''"]
       thrown
  have second: "composePrompt (Some (JStr ''Dogs'')) None (Some (JObj [(''toString'', JStr ''x'')]))
                  (Some (JStr ''1:1'')) (Some (JStr ''ocean'')) = Inl TypeError"
    by simp
  from first second show ?thesis by (simp add: spec_prompt_def given_def)
qed

section \<open>The response classifier\<close>

lemma hasErrorField_truthy: "hasErrorField j \<Longrightarrow> truthy_json j"
  by (cases j) (auto simp: hasErrorField_def)

lemma tryParse_leading:
  "tryParseBufferAsJson parse buf = (if leadingJson buf then parse (trim buf) else None)"
  by (simp add: tryParseBufferAsJson_def leadingJson_def split: list.splits)

lemma classify_json_error:
  "jsonErrorBody parse (data r) j \<Longrightarrow> classify parse r = JsonError (status r) j"
  by (simp add: classify_def jsonErrorBody_def tryParse_leading hasErrorField_truthy)

lemma classify_no_json_error:
  "\<not> (\<exists>j. jsonErrorBody parse (data r) j) \<Longrightarrow> classify parse r = classifyRest parse r"
  by (auto simp: classify_def jsonErrorBody_def tryParse_leading split: option.splits)

text \<open>
  Under a status from 200 to 299 the test on the buffer never rejects: the empty buffer
  is accepted as an image too.
\<close>

lemma classifyRest_empty_buffer:
  "\<not> jsonContentType r \<Longrightarrow> 200 \<le> status r \<Longrightarrow> status r < 300 \<Longrightarrow> data r = [] \<Longrightarrow>
     classifyRest parse r = Image []"
  by (simp add: classifyRest_def jsonContentType_def truthyBuffer_def)

text \<open>
  A body that opens as JSON and has an \<^verbatim>\<open>error\<close> member, the empty string, under status
  200 and an image content type: the classifier takes it for an image.
\<close>

theorem classify_empty_error_counterexample:
  "leadingJson (data emptyErrorBody)
   \<and> JSON_parse_sample (trim (data emptyErrorBody)) = Some (JObj [(''error'', JStr [])])
   \<and> member (JObj [(''error'', JStr [])]) ''error'' = Some (JStr [])
   \<and> classify JSON_parse_sample emptyErrorBody = Image (data emptyErrorBody)"
  by (simp add: leadingJson_def sample_defs classify_defs)

text \<open>
  C6, as amended. The classifier decides in this order, for every buffer, header map and
  status: a buffer whose leading non-white-space byte is an opening brace or bracket and
  that parses as JSON with a truthy \<^verbatim>\<open>error\<close>, \<^verbatim>\<open>detail\<close> or \<^verbatim>\<open>message\<close> member is an
  error carrying the status and the parsed body; otherwise a response with a JSON content
  type is an error; otherwise a response with a status from 200 to 299 and a non-empty
  buffer is an image, whatever its signature; otherwise a response with a status outside
  200 to 299 is an opaque error carrying status and headers.
\<close>

theorem classify_policy:
  "(jsonErrorBody parse (data r) j \<longrightarrow> classify parse r = JsonError (status r) j)
   \<and> (\<not> (\<exists>j. jsonErrorBody parse (data r) j) \<and> jsonContentType r \<longrightarrow>
        classify parse r = JsonContentType (status r) (tryParseBufferAsJson parse (data r)))
   \<and> (\<not> (\<exists>j. jsonErrorBody parse (data r) j) \<and> \<not> jsonContentType r
        \<and> 200 \<le> status r \<and> status r < 300 \<and> data r \<noteq> [] \<longrightarrow>
        classify parse r = Image (data r))
   \<and> (\<not> (\<exists>j. jsonErrorBody parse (data r) j) \<and> \<not> jsonContentType r
        \<and> \<not> (200 \<le> status r \<and> status r < 300) \<longrightarrow>
        classify parse r = Opaque (status r) (headers r))"
  by (auto simp: classify_json_error classify_no_json_error classifyRest_def jsonContentType_def
        truthyBuffer_def)

lemma sample_trims:
  "trim (data modelNotFound) = ''{\"error\":\"Model not found\"}''"
  "trim (data loadingBody) = ''{\"estimated_time\":20}''"
  "trim (data unsignedImage) = ''RIFF''"
  "trim (data notFoundPage) = ''Not Found''"
  by (simp_all add: sample_defs trim_def strip.simps whiteSpace_def)

lemma sample_no_json_error:
  "\<not> (\<exists>j. jsonErrorBody JSON_parse_sample (data loadingBody) j)"
  "\<not> (\<exists>j. jsonErrorBody JSON_parse_sample (data unsignedImage) j)"
  "\<not> (\<exists>j. jsonErrorBody JSON_parse_sample (data notFoundPage) j)"
  by (auto simp: jsonErrorBody_def leadingJson_def sample_trims JSON_parse_sample_def
        hasErrorField_def)

theorem classify_policy_witness:
  "classify JSON_parse_sample modelNotFound
     = JsonError 404 (JObj [(''error'', JStr ''Model not found'')])
   \<and> classify JSON_parse_sample loadingBody
     = JsonContentType 503 (Some (JObj [(''estimated_time'', JNum ''20'')]))
   \<and> classify JSON_parse_sample unsignedImage = Image ''RIFF''
   \<and> classify JSON_parse_sample notFoundPage = Opaque 404 [(''content-type'', ''text/plain'')]"
proof -
  have h1: "jsonErrorBody JSON_parse_sample (data modelNotFound)
              (JObj [(''error'', JStr ''Model not found'')])"
    by (simp add: jsonErrorBody_def leadingJson_def sample_trims JSON_parse_sample_def
          hasErrorField_def)
  have h2: "jsonContentType loadingBody"
    by (simp add: jsonContentType_def contentType_def toLowerCase_def lower_def loadingBody_def)
  have h3: "\<not> jsonContentType unsignedImage"
    by (simp add: jsonContentType_def contentType_def toLowerCase_def lower_def unsignedImage_def)
  have h4: "\<not> jsonContentType notFoundPage"
    by (simp add: jsonContentType_def contentType_def toLowerCase_def lower_def notFoundPage_def)
  have p2: "tryParseBufferAsJson JSON_parse_sample (data loadingBody)
              = Some (JObj [(''estimated_time'', JNum ''20'')])"
    by (simp add: tryParse_leading leadingJson_def sample_trims JSON_parse_sample_def)
  have s1: "status modelNotFound = 404" and s2: "status loadingBody = 503"
    and s3: "status unsignedImage = 200 \<and> data unsignedImage = ''RIFF''"
    and s4: "status notFoundPage = 404
             \<and> headers notFoundPage = [(''content-type'', ''text/plain'')]"
    by (simp_all add: sample_defs)
  from classify_policy [of JSON_parse_sample modelNotFound
         "JObj [(''error'', JStr ''Model not found'')]"] h1 s1
  have c1: "classify JSON_parse_sample modelNotFound
              = JsonError 404 (JObj [(''error'', JStr ''Model not found'')])"
    by simp
  from classify_policy [of JSON_parse_sample loadingBody JNull] sample_no_json_error(1) h2 p2 s2
  have c2: "classify JSON_parse_sample loadingBody
              = JsonContentType 503 (Some (JObj [(''estimated_time'', JNum ''20'')]))"
    by simp
  from classify_policy [of JSON_parse_sample unsignedImage JNull] sample_no_json_error(2) h3 s3
  have c3: "classify JSON_parse_sample unsignedImage = Image ''RIFF''"
    by simp
  from classify_policy [of JSON_parse_sample notFoundPage JNull] sample_no_json_error(3) h4 s4
  have c4: "classify JSON_parse_sample notFoundPage
              = Opaque 404 [(''content-type'', ''text/plain'')]"
    by simp
  from c1 c2 c3 c4 show ?thesis by simp
qed

section \<open>The fallback loop\<close>

lemma tryModel_called: "called (fst (tryModel parse post p s m)) = called s @ [m]"
  by (simp add: tryModel_def Let_def split: sum.splits classified.splits)

lemma passesOn_tryModel:
  "passesOn parse (callHuggingFaceRouter post m p) \<Longrightarrow>
     snd (tryModel parse post p s m) = False
     \<and> finalBuffer (fst (tryModel parse post p s m)) = finalBuffer s"
  by (auto simp: passesOn_def tryModel_def Let_def nonRetryable_def
        split: sum.splits classified.splits)

text \<open>Past a run of retryable candidates the loop has called each of them, in order.\<close>

lemma fallbackLoop_passes:
  "\<forall>m \<in> set pre. passesOn parse (callHuggingFaceRouter post m p) \<Longrightarrow>
     \<exists>s'. fallbackLoop parse post p s (pre @ rest) = fallbackLoop parse post p s' rest
          \<and> called s' = called s @ pre \<and> finalBuffer s' = finalBuffer s"
proof (induction pre arbitrary: s)
  case Nil
  show ?case by (intro exI [of _ s]) simp
next
  case (Cons m pre)
  obtain s1 stop where t: "tryModel parse post p s m = (s1, stop)"
    by (cases "tryModel parse post p s m")
  from Cons.prems have pm: "passesOn parse (callHuggingFaceRouter post m p)" by simp
  from passesOn_tryModel [OF pm, of s] t
  have stop: "stop = False" and fb: "finalBuffer s1 = finalBuffer s"
    by simp_all
  from tryModel_called [of parse post p s m] t have c: "called s1 = called s @ [m]" by simp
  from Cons.prems have "\<forall>m \<in> set pre. passesOn parse (callHuggingFaceRouter post m p)" by simp
  from Cons.IH [OF this, of s1] obtain s' where
    "fallbackLoop parse post p s1 (pre @ rest) = fallbackLoop parse post p s' rest"
    "called s' = called s1 @ pre" "finalBuffer s' = finalBuffer s1" by blast
  with t stop fb c show ?case by auto
qed

text \<open>A call that throws is caught inside the pass: it is recorded and the loop goes on.\<close>

lemma tryModel_thrown:
  "callHuggingFaceRouter post m p = Inl innerErr \<Longrightarrow>
     tryModel parse post p s m
       = (s\<lparr>called := called s @ [m],
            lastError := Some (ErrThrown m (message_or_value innerErr))\<rparr>, False)"
  by (simp add: tryModel_def Let_def)

lemma fallbackLoop_image_head:
  assumes "callHuggingFaceRouter post m p = Inr r" and "classify parse r = Image buf"
  shows "fallbackLoop parse post p s (m # rest)
           = s\<lparr>finalBuffer := Some buf, hfResponseHeaders := Some (headers r),
               called := called s @ [m]\<rparr>"
  using assms by (simp add: tryModel_def Let_def)

text \<open>
  C5. The loop tries the candidates in list order, goes past every retryable one (a
  status of 500 or more, a status 429, a call that threw, which lands in the last error
  and is not raised further) and stops at the first response classified as an image: that
  buffer is the result and the models called are exactly those up to that candidate, so
  none after it.
\<close>

theorem fallbackLoop_first_image:
  assumes pre: "\<forall>m' \<in> set pre. passesOn parse (callHuggingFaceRouter post m' p)"
      and call: "callHuggingFaceRouter post m p = Inr r"
      and img: "classify parse r = Image buf"
  shows "finalBuffer (fallbackLoop parse post p s (pre @ m # rest)) = Some buf
         \<and> called (fallbackLoop parse post p s (pre @ m # rest)) = called s @ pre @ [m]"
proof -
  from fallbackLoop_passes [OF pre, of s "m # rest"] obtain s' where
    s': "fallbackLoop parse post p s (pre @ m # rest) = fallbackLoop parse post p s' (m # rest)"
        "called s' = called s @ pre" by blast
  show ?thesis
    unfolding s'(1) fallbackLoop_image_head [OF call img] using s'(2) by simp
qed

lemma sampleRouter_classified:
  "callHuggingFaceRouter sampleRouter ''stabilityai/stable-diffusion-3.5'' p
     = Inr \<lparr>status = 500, headers = [(''content-type'', ''application/json'')],
            data = ''{\"error\":\"Internal error\"}''\<rparr>"
  "callHuggingFaceRouter sampleRouter ''runwayml/stable-diffusion-v1-5'' p
     = Inr \<lparr>status = 429, headers = [(''content-type'', ''application/json'')],
            data = ''{\"error\":\"Rate limit reached\"}''\<rparr>"
  "callHuggingFaceRouter sampleRouter ''stabilityai/stable-diffusion-xl-1024-v1-0'' p
     = Inr \<lparr>status = 200, headers = [(''content-type'', ''image/png'')], data = pngBytes\<rparr>"
  "classify JSON_parse_sample
     \<lparr>status = 500, headers = [(''content-type'', ''application/json'')],
      data = ''{\"error\":\"Internal error\"}''\<rparr>
     = JsonError 500 (JObj [(''error'', JStr ''Internal error'')])"
  "classify JSON_parse_sample
     \<lparr>status = 429, headers = [(''content-type'', ''application/json'')],
      data = ''{\"error\":\"Rate limit reached\"}''\<rparr>
     = JsonError 429 (JObj [(''error'', JStr ''Rate limit reached'')])"
  "classify JSON_parse_sample
     \<lparr>status = 200, headers = [(''content-type'', ''image/png'')], data = pngBytes\<rparr>
     = Image pngBytes"
  by (simp_all add: callHuggingFaceRouter_def sampleRouter_def routerUrl_def
        JSON_parse_sample_def pngBytes_def classify_defs)

theorem fallbackLoop_first_image_witness:
  "finalBuffer (fallbackLoop JSON_parse_sample sampleRouter samplePrompt
      initialLoopState (modelsToTry @ [''black-forest-labs/FLUX.1-schnell''])) = Some pngBytes
   \<and> called (fallbackLoop JSON_parse_sample sampleRouter samplePrompt
      initialLoopState (modelsToTry @ [''black-forest-labs/FLUX.1-schnell'']))
     = [''stabilityai/stable-diffusion-3.5'', ''runwayml/stable-diffusion-v1-5'',
        ''stabilityai/stable-diffusion-xl-1024-v1-0'']"
proof -
  have pre: "\<forall>m' \<in> set [''stabilityai/stable-diffusion-3.5'', ''runwayml/stable-diffusion-v1-5''].
               passesOn JSON_parse_sample
                 (callHuggingFaceRouter sampleRouter m' samplePrompt)"
    by (simp add: passesOn_def sampleRouter_classified)
  from fallbackLoop_first_image [OF pre sampleRouter_classified(3) sampleRouter_classified(6),
         of initialLoopState "[''black-forest-labs/FLUX.1-schnell'']"]
  show ?thesis by (simp add: modelsToTry_def initialLoopState_def)
qed

text \<open>
  A plain page under status 404 is classified as an error with a status between 400 and
  499 other than 429, and the loop goes on: it calls all three models.
\<close>

theorem fallbackLoop_opaque_404_counterexample:
  "classify JSON_parse_sample notFoundPage = Opaque 404 [(''content-type'', ''text/plain'')]
   \<and> nonRetryable 404
   \<and> called (fallbackLoop JSON_parse_sample pageRouter samplePrompt
        initialLoopState modelsToTry)
     = [''stabilityai/stable-diffusion-3.5'', ''runwayml/stable-diffusion-v1-5'',
        ''stabilityai/stable-diffusion-xl-1024-v1-0'']"
proof -
  have c: "classify JSON_parse_sample notFoundPage
             = Opaque 404 [(''content-type'', ''text/plain'')]"
    by (simp add: sample_defs classify_defs)
  then show ?thesis by (simp add: pageRouter_def loop_defs)
qed

text \<open>
  C1, as amended. A candidate whose response is classified as a JSON error (an error body,
  or a JSON content type) with a status between 400 and 499 other than 429 ends the loop:
  no remaining model is called and that error is the last error. With a single response
  of this kind, status 404, a second candidate is never called. An opaque error with such
  a status is recorded as the last error and the loop goes on to the remaining models.
\<close>

theorem fallbackLoop_client_error:
  assumes call: "callHuggingFaceRouter post m p = Inr r"
      and st: "nonRetryable st"
  shows "(classify parse r = JsonError st j \<longrightarrow>
            fallbackLoop parse post p s (m # rest)
              = s\<lparr>called := called s @ [m], hfResponseHeaders := Some (headers r),
                  lastError := Some (ErrBody m st (Some j))\<rparr>)
         \<and> (classify parse r = JsonContentType st jo \<longrightarrow>
            fallbackLoop parse post p s (m # rest)
              = s\<lparr>called := called s @ [m], hfResponseHeaders := Some (headers r),
                  lastError := Some (ErrBody m st jo)\<rparr>)
         \<and> (classify parse r = Opaque st hs \<longrightarrow>
            fallbackLoop parse post p s (m # rest)
              = fallbackLoop parse post p
                  (s\<lparr>called := called s @ [m], hfResponseHeaders := Some (headers r),
                     lastError := Some (ErrHeaders m st hs)\<rparr>) rest)"
  using assms by (simp add: tryModel_def Let_def)

theorem fallbackLoop_client_error_witness:
  "fallbackLoop JSON_parse_sample notFoundRouter samplePrompt
     initialLoopState modelsToTry
   = \<lparr>lastError = Some (ErrBody ''stabilityai/stable-diffusion-3.5'' 404
                          (Some (JObj [(''error'', JStr ''Model not found'')]))),
      finalBuffer = None,
      hfResponseHeaders = Some [(''content-type'', ''application/json'')],
      called = [''stabilityai/stable-diffusion-3.5'']\<rparr>"
proof -
  have call: "callHuggingFaceRouter notFoundRouter ''stabilityai/stable-diffusion-3.5''
                samplePrompt = Inr modelNotFound"
    by (simp add: callHuggingFaceRouter_def notFoundRouter_def)
  have st: "nonRetryable 404" by (simp add: nonRetryable_def)
  have c: "classify JSON_parse_sample modelNotFound
             = JsonError 404 (JObj [(''error'', JStr ''Model not found'')])"
    by (simp add: sample_defs classify_defs)
  from fallbackLoop_client_error [OF call st, of JSON_parse_sample
         "JObj [(''error'', JStr ''Model not found'')]" initialLoopState
         "[''runwayml/stable-diffusion-v1-5'', ''stabilityai/stable-diffusion-xl-1024-v1-0'']"]
       c
  show ?thesis by (simp add: modelsToTry_def initialLoopState_def modelNotFound_def)
qed

section \<open>The generation handler and the record\<close>

lemma save_cases:
  "save e t w = (Some err, w') \<Longrightarrow> persisted w' = persisted w"
  "save e t w = (None, w') \<Longrightarrow> persisted w' = Some t"
  by (auto simp: save_def split: option.splits)

lemma outerCatch_response:
  "outerCatch e (Some t) w err = (Some r, w') \<Longrightarrow>
     persisted w' = Some (t\<lparr>isGenerating := False\<rparr>) \<and> r = unexpectedResponse e err"
  by (auto simp: outerCatch_def dest: save_cases split: option.splits prod.splits)

lemma successResponse_simps:
  "successResponse \<lparr>res_status = n, res_json = ThumbnailGenerated t\<rparr>"
  "\<not> successResponse \<lparr>res_status = n, res_json = GenerationFailed le hs\<rparr>"
  "\<not> successResponse \<lparr>res_status = n, res_json = UploadFailed x\<rparr>"
  by (simp_all add: successResponse_def)

lemma unexpectedResponse_not_success: "\<not> successResponse (unexpectedResponse e err)"
  by (simp add: unexpectedResponse_def successResponse_def Let_def
        split: option.splits prod.splits)

lemma uploadCatch_response:
  "uploadCatch e t w err = (Some r, w') \<Longrightarrow>
     persisted w' = Some (t\<lparr>isGenerating := False\<rparr>) \<and> \<not> successResponse r"
  by (auto simp: uploadCatch_def Let_def unexpectedResponse_not_success successResponse_simps
        dest!: save_cases outerCatch_response split: option.splits prod.splits)

lemma sample_requestPrompt: "requestPrompt sampleRequest = Inr samplePrompt"
  by (simp add: requestPrompt_def sampleRequest_def samplePrompt_def composePrompt_def
        andThen_def lookup_text_def stylePrompts_def colorSchemeDescriptions_def)

lemma objectStyle_requestPrompt: "requestPrompt objectStyleRequest = Inl TypeError"
  by (simp add: requestPrompt_def objectStyleRequest_def sampleRequest_def composePrompt_def
        andThen_def lookup_text_def)

lemma sample_runFallback:
  "finalBuffer (runFallback (sampleEnv\<lparr>save_error := sv\<rparr>) p) = Some pngBytes"
  by (simp add: runFallback_def sampleEnv_def tryModel_def Let_def nonRetryable_def
        initialLoopState_def modelsToTry_def sampleRouter_classified)


text \<open>
  What holds on every path that ends in a response: the record, created unless the
  create rejected, is persisted with the in-progress flag false; a record without image
  URL goes with a failure response; a success response carries the persisted record, and
  that record has the URL the CDN returned.
\<close>

lemma generateThumbnail_never_pending:
  assumes "generateThumbnail e req = (Some r, w)"
  shows "case persisted w of
           None \<Rightarrow> create_error e \<noteq> None
         | Some t \<Rightarrow>
             \<not> isGenerating t
             \<and> (image_url t = None \<longrightarrow> \<not> successResponse r)
             \<and> (successResponse r \<longrightarrow> res_json r = ThumbnailGenerated t \<and> image_url t \<noteq> None)"
proof (cases "create_error e")
  case (Some err)
  with assms show ?thesis
    by (auto simp: generateThumbnail_def outerCatch_def initialWorld_def)
next
  case None
  note ce = None
  show ?thesis
  proof (cases "requestPrompt req")
    case (Inl err)
    with ce assms show ?thesis
      by (auto simp: generateThumbnail_def Let_def Thumbnail_create_def
            unexpectedResponse_not_success dest!: outerCatch_response)
  next
    case (Inr p)
    note pr = Inr
    show ?thesis
    proof (cases "finalBuffer (runFallback e p)")
      case None
      with ce pr assms show ?thesis
        by (auto simp: generateThumbnail_def Let_def successResponse_simps Thumbnail_create_def
              unexpectedResponse_not_success
              dest!: save_cases outerCatch_response split: option.splits prod.splits)
    next
      case (Some buffer)
      note fb = Some
      show ?thesis
      proof (cases "imagekit_upload e buffer (uploadName e)")
        case (Inl uploadErr)
        with ce pr fb assms show ?thesis
          by (auto simp: generateThumbnail_def Let_def Thumbnail_create_def
                dest!: uploadCatch_response)
      next
        case (Inr url)
        with ce pr fb assms show ?thesis
          by (auto simp: generateThumbnail_def Let_def Thumbnail_create_def
                successResponse_simps
                dest!: save_cases uploadCatch_response split: option.splits prod.splits)
      qed
    qed
  qed
qed

text \<open>
  The paths behind the record, one by one, when the store accepts the save: a throw of
  the prompt composition reaches the outer \<^verbatim>\<open>catch\<close>, which sets the flag false and
  saves; a rejected upload is answered by the inner \<^verbatim>\<open>catch\<close>, which does the same; an
  accepted upload gives the success response.
\<close>

lemma generateThumbnail_compose_throws:
  assumes "create_error e = None" and "requestPrompt req = Inl err"
      and "save_error e 0 = None"
  shows "generateThumbnail e req =
           (Some (unexpectedResponse e err),
            \<lparr>persisted = Some ((Thumbnail_create req)\<lparr>isGenerating := False\<rparr>), saves = 1\<rparr>)"
  using assms
  by (simp add: generateThumbnail_def Let_def outerCatch_def save_def initialWorld_def)

lemma generateThumbnail_upload_rejected:
  assumes "create_error e = None" and "requestPrompt req = Inr p"
      and "finalBuffer (runFallback e p) = Some buffer"
      and "imagekit_upload e buffer (uploadName e) = Inl uploadErr"
      and "save_error e 0 = None"
  shows "generateThumbnail e req =
           (Some \<lparr>res_status = 500, res_json = UploadFailed (message_or_value uploadErr)\<rparr>,
            \<lparr>persisted = Some ((Thumbnail_create req)\<lparr>isGenerating := False\<rparr>), saves = 1\<rparr>)"
  using assms
  by (simp add: generateThumbnail_def Let_def uploadCatch_def save_def initialWorld_def)

lemma generateThumbnail_success:
  assumes "create_error e = None" and "requestPrompt req = Inr p"
      and "finalBuffer (runFallback e p) = Some buffer"
      and "imagekit_upload e buffer (uploadName e) = Inr url"
      and "save_error e 0 = None"
  shows "generateThumbnail e req =
           (Some \<lparr>res_status = 200,
                  res_json = ThumbnailGenerated
                    ((Thumbnail_create req)\<lparr>image_url := Some url, isGenerating := False\<rparr>)\<rparr>,
            \<lparr>persisted = Some ((Thumbnail_create req)
                                 \<lparr>image_url := Some url, isGenerating := False\<rparr>),
             saves = 1\<rparr>)"
  using assms
  by (simp add: generateThumbnail_def Let_def save_def initialWorld_def)

text \<open>
  C2 at a concrete request. An image is accepted and the upload succeeds; the save that
  follows is rejected and lands in the \<^verbatim>\<open>catch\<close> written for a failed upload, whose own
  save is accepted. The response is the failure \<^verbatim>\<open>Image upload failed\<close> with status 500,
  while the persisted record has the in-progress flag false and the image URL: a record
  with an image URL that does not stand for a success.
\<close>

theorem generateThumbnail_url_under_failure:
  "generateThumbnail (sampleEnv\<lparr>save_error := firstSaveFails\<rparr>) sampleRequest
     = (Some \<lparr>res_status = 500, res_json = UploadFailed (Inl ''connection lost'')\<rparr>,
        \<lparr>persisted = Some ((Thumbnail_create sampleRequest)
                             \<lparr>isGenerating := False,
                              image_url := Some ''https://ik.imagekit.io/demo/final-output.png''\<rparr>),
         saves = 2\<rparr>)
   \<and> body_message (UploadFailed (Inl ''connection lost'')) = ''Image upload failed''
   \<and> \<not> successResponse \<lparr>res_status = 500, res_json = UploadFailed (Inl ''connection lost'')\<rparr>
   \<and> imagekit_upload (sampleEnv\<lparr>save_error := firstSaveFails\<rparr>) pngBytes
        (uploadName (sampleEnv\<lparr>save_error := firstSaveFails\<rparr>))
      = Inr ''https://ik.imagekit.io/demo/final-output.png''"
proof -
  have run: "generateThumbnail (sampleEnv\<lparr>save_error := firstSaveFails\<rparr>) sampleRequest
     = (Some \<lparr>res_status = 500, res_json = UploadFailed (Inl ''connection lost'')\<rparr>,
        \<lparr>persisted = Some ((Thumbnail_create sampleRequest)
                             \<lparr>isGenerating := False,
                              image_url := Some ''https://ik.imagekit.io/demo/final-output.png''\<rparr>),
         saves = 2\<rparr>)"
    unfolding generateThumbnail_def sample_requestPrompt sample_runFallback Let_def
    by (simp add: sampleEnv_def sampleUpload_def firstSaveFails_def save_def uploadCatch_def
          initialWorld_def message_or_value_def Thumbnail_create_def)
  have up: "imagekit_upload (sampleEnv\<lparr>save_error := firstSaveFails\<rparr>) pngBytes
              (uploadName (sampleEnv\<lparr>save_error := firstSaveFails\<rparr>))
            = Inr ''https://ik.imagekit.io/demo/final-output.png''"
    by (simp add: sampleEnv_def sampleUpload_def)
  from run up show ?thesis
    by (simp add: successResponse_simps)
qed

text \<open>
  C3 at a concrete request. An image is accepted from the third model and the upload and
  the save succeed: the response has status 200 and the persisted record has the image
  URL and the in-progress flag false, but it keeps the free text of the user as the
  prompt used, not the composed prompt.
\<close>

theorem generateThumbnail_prompt_used:
  "map_option res_status (fst (generateThumbnail sampleEnv sampleRequest)) = Some 200
   \<and> map_option prompt_used (persisted (snd (generateThumbnail sampleEnv sampleRequest)))
     = Some (Some (JStr ''a red fox''))
   \<and> map_option image_url (persisted (snd (generateThumbnail sampleEnv sampleRequest)))
     = Some (Some ''https://ik.imagekit.io/demo/final-output.png'')
   \<and> requestPrompt sampleRequest = Inr samplePrompt
   \<and> samplePrompt \<noteq> ''a red fox''"
proof -
  have e: "sampleEnv = sampleEnv\<lparr>save_error := noSaveError\<rparr>"
    by (simp add: sampleEnv_def)
  have fb: "finalBuffer (runFallback sampleEnv samplePrompt) = Some pngBytes"
    using sample_runFallback [of noSaveError samplePrompt] e by simp
  have run: "generateThumbnail sampleEnv sampleRequest
     = (Some \<lparr>res_status = 200,
              res_json = ThumbnailGenerated
                ((Thumbnail_create sampleRequest)
                   \<lparr>image_url := Some ''https://ik.imagekit.io/demo/final-output.png'',
                    isGenerating := False\<rparr>)\<rparr>,
        \<lparr>persisted = Some ((Thumbnail_create sampleRequest)
                   \<lparr>image_url := Some ''https://ik.imagekit.io/demo/final-output.png'',
                    isGenerating := False\<rparr>),
         saves = 1\<rparr>)"
  proof -
    have ce: "create_error sampleEnv = None" and sv: "save_error sampleEnv 0 = None"
      and up: "imagekit_upload sampleEnv pngBytes (uploadName sampleEnv)
                 = Inr ''https://ik.imagekit.io/demo/final-output.png''"
      by (simp_all add: sampleEnv_def sampleUpload_def noSaveError_def)
    from generateThumbnail_success [OF ce sample_requestPrompt fb up sv] show ?thesis .
  qed
  have p: "samplePrompt \<noteq> ''a red fox''"
    by (simp add: samplePrompt_def)
  from run p sample_requestPrompt show ?thesis
    by (simp add: Thumbnail_create_def sampleRequest_def)
qed




text \<open>
  The sample request with a style that cannot be converted to text: no model is asked,
  and the outer \<^verbatim>\<open>catch\<close> finalizes the record and answers with status 500.
\<close>

lemma generateThumbnail_object_style:
  "generateThumbnail sampleEnv objectStyleRequest
     = (Some \<lparr>res_status = 500,
              res_json = ServerError ''Cannot convert object to primitive value''\<rparr>,
        \<lparr>persisted = Some ((Thumbnail_create objectStyleRequest)\<lparr>isGenerating := False\<rparr>),
         saves = 1\<rparr>)"
proof -
  have ce: "create_error sampleEnv = None" and sv: "save_error sampleEnv 0 = None"
    by (simp_all add: sampleEnv_def noSaveError_def)
  from generateThumbnail_compose_throws [OF ce objectStyle_requestPrompt sv] show ?thesis
    by (simp add: unexpectedResponse_def TypeError_def)
qed

section \<open>The near-duplicate handler and the record\<close>

text \<open>
  C10. In the near-duplicate handler, whenever the prompt composition, the inference
  call, the upload or the save throws or rejects after the record was created, the
  response has status 500 and the record is not finalized: it stays persisted as created,
  in progress and without image URL.
\<close>

theorem generateThumbnail_sdk_leaves_pending:
  assumes "create_error e = None" and "sdkFailure e req = Some error"
  shows "fst (generateThumbnail_sdk e req)
           = Some \<lparr>res_status = 500, res_json = ServerError (message error)\<rparr>
         \<and> persisted (snd (generateThumbnail_sdk e req)) = Some (Thumbnail_create req)
         \<and> isGenerating (Thumbnail_create req)
         \<and> image_url (Thumbnail_create req) = None"
  using assms
  by (auto simp: generateThumbnail_sdk_def sdkFailure_def Let_def sdkCatch_def save_def
        initialWorld_def Thumbnail_create_def split: sum.splits)

lemma sample_sdkPrompt: "\<exists>p. sdkPrompt sampleRequest = Inr p"
  by (simp add: sdkPrompt_def sampleRequest_def composePrompt_sdk_def andThen_def
        lookup_text_def stylePrompts_def colorSchemeDescriptions_def)

theorem generateThumbnail_sdk_leaves_pending_witness:
  "fst (generateThumbnail_sdk (sampleEnv\<lparr>save_error := firstSaveFails\<rparr>) sampleRequest)
     = Some \<lparr>res_status = 500, res_json = ServerError ''connection lost''\<rparr>
   \<and> map_option isGenerating
       (persisted (snd (generateThumbnail_sdk (sampleEnv\<lparr>save_error := firstSaveFails\<rparr>)
                          sampleRequest))) = Some True
   \<and> map_option image_url
       (persisted (snd (generateThumbnail_sdk (sampleEnv\<lparr>save_error := firstSaveFails\<rparr>)
                          sampleRequest))) = Some None"
proof -
  have ce: "create_error (sampleEnv\<lparr>save_error := firstSaveFails\<rparr>) = None"
    by (simp add: sampleEnv_def)
  from sample_sdkPrompt obtain p where p: "sdkPrompt sampleRequest = Inr p" ..
  have f: "sdkFailure (sampleEnv\<lparr>save_error := firstSaveFails\<rparr>) sampleRequest
             = Some (Exn ''connection lost'' None)"
    by (simp add: sdkFailure_def p sampleEnv_def sampleTextToImage_def sampleUpload_def
          firstSaveFails_def)
  from generateThumbnail_sdk_leaves_pending [OF ce f] show ?thesis
    by simp
qed

section \<open>The delete handler and ownership\<close>

text \<open>
  When the store call does not reject, the response is the success confirmation whatever
  the collection holds, and the record of the given id is removed whoever owns it.
\<close>

lemma deleteThumbnail_same_response:
  "fst (deleteThumbnail None req db) = \<lparr>res_status = 200, res_json = ThumbnailDeleted\<rparr>"
  by (simp add: deleteThumbnail_def)

lemma deleteThumbnail_by_id:
  "snd (deleteThumbnail None req db) = db(params_id req := None)"
  by (simp add: deleteThumbnail_def findByIdAndDelete_def)

text \<open>
  C7 at a concrete collection. The record \<^verbatim>\<open>t1\<close> belongs to alice; bob asks to delete
  \<^verbatim>\<open>t1\<close>. The response is the success confirmation and the record of alice is gone: the
  delete matches by id alone.
\<close>

theorem deleteThumbnail_ignores_owner:
  "map_option userId (aliceCollection ''t1'') = Some ''alice''
   \<and> del_session_userId bobDelete = ''bob''
   \<and> fst (deleteThumbnail None bobDelete aliceCollection)
     = \<lparr>res_status = 200, res_json = ThumbnailDeleted\<rparr>
   \<and> snd (deleteThumbnail None bobDelete aliceCollection) ''t1'' = None"
  by (simp add: deleteThumbnail_def findByIdAndDelete_def bobDelete_def aliceCollection_def
        aliceRecord_def Thumbnail_create_def sampleRequest_def)

end
